theory Spec2Isabelle
  imports Main
begin

section \<open>The Pomodoro timer engine (lib/timer.ts)\<close>

text \<open>
  The engine is the closure returned by \<open>createPomodoroTimer\<close>: seven variables that its
  methods read and assign. The model is a record of those variables and one HOL function
  per method, taking the engine and returning the engine after the call.

  Numbers are JavaScript numbers holding integers (seconds, milliseconds, counts); they
  are modelled as \<open>int\<close>. \<open>Date.now()\<close> is an input of the model: every method that reads
  the clock takes the value read as the argument \<open>clock\<close>.
\<close>

subsection \<open>Data model (lib/types.ts)\<close>

datatype PomodoroMode = focus | short_break | long_break

text \<open>
  \<open>TimerSettings.durations\<close> is an object with exactly the three keys of
  \<open>PomodoroMode\<close>; \<open>settings.durations[mode]\<close> is function application.
\<close>

record TimerSettings =
  durations :: "PomodoroMode \<Rightarrow> int"
  autoAdvance :: bool
  longBreakInterval :: int
  soundEnabled :: bool
  notificationsEnabled :: bool

record PomodoroTimer =
  settings :: TimerSettings
  currentMode :: PomodoroMode
  remaining :: int
  isRunning :: bool
  sessionStartTime :: "int option"
  remainingAtStart :: int
  completedFocusSessions :: int

text \<open>The getters of \<open>state\<close>: mode, remaining, isRunning, completedFocusSessions.\<close>

definition state :: "PomodoroTimer \<Rightarrow> PomodoroMode \<times> int \<times> bool \<times> int" where
  "state t = (currentMode t, remaining t, isRunning t, completedFocusSessions t)"

subsection \<open>JavaScript arithmetic\<close>

text \<open>
  \<open>Math.floor(x / 1000)\<close> on an integer \<open>x\<close> is \<open>x div 1000\<close> (HOL's \<open>div\<close> on \<open>int\<close>
  rounds down). The operator \<open>%\<close> truncates: the result has the sign of the dividend.
\<close>

definition js_rem :: "int \<Rightarrow> int \<Rightarrow> int" where
  "js_rem a b = sgn a * (\<bar>a\<bar> mod \<bar>b\<bar>)"

subsection \<open>Operations\<close>

definition createPomodoroTimer :: "TimerSettings \<Rightarrow> PomodoroTimer" where
  "createPomodoroTimer initialSettings =
     \<lparr> settings = initialSettings,
       currentMode = focus,
       remaining = durations initialSettings focus,
       isRunning = False,
       sessionStartTime = None,
       remainingAtStart = durations initialSettings focus,
       completedFocusSessions = 0 \<rparr>"

definition start :: "PomodoroTimer \<Rightarrow> int \<Rightarrow> PomodoroTimer" where
  "start t clock =
     (if isRunning t then t
      else t\<lparr> isRunning := True,
              sessionStartTime := Some clock,
              remainingAtStart := remaining t \<rparr>)"

definition pause :: "PomodoroTimer \<Rightarrow> int \<Rightarrow> PomodoroTimer" where
  "pause t clock =
     (if \<not> isRunning t then t
      else
        (let t1 = (case sessionStartTime t of
                     None \<Rightarrow> t
                   | Some s \<Rightarrow>
                       (let elapsed = (clock - s) div 1000
                        in t\<lparr> remaining := max 0 (remainingAtStart t - elapsed) \<rparr>))
         in t1\<lparr> isRunning := False, sessionStartTime := None \<rparr>))"

text \<open>\<open>reset(mode = currentMode)\<close>: an omitted argument is \<open>None\<close>.\<close>

definition reset :: "PomodoroTimer \<Rightarrow> PomodoroMode option \<Rightarrow> PomodoroTimer" where
  "reset t mode_arg =
     (let mode = (case mode_arg of None \<Rightarrow> currentMode t | Some m \<Rightarrow> m)
      in t\<lparr> isRunning := False,
              currentMode := mode,
              remaining := durations (settings t) mode,
              remainingAtStart := durations (settings t) mode,
              sessionStartTime := None \<rparr>)"

definition switchMode :: "PomodoroTimer \<Rightarrow> PomodoroMode \<Rightarrow> PomodoroTimer" where
  "switchMode t mode =
     t\<lparr> currentMode := mode,
        remaining := durations (settings t) mode,
        remainingAtStart := durations (settings t) mode,
        isRunning := False,
        sessionStartTime := None \<rparr>"

text \<open>
  \<open>updateSettings(newSettings: TimerSettings)\<close>: the argument is a complete settings
  record, so the spread \<open>{...settings, ...newSettings, durations: {...newSettings.durations}}\<close>
  takes every field from \<open>newSettings\<close>.
\<close>

definition updateSettings :: "PomodoroTimer \<Rightarrow> TimerSettings \<Rightarrow> PomodoroTimer" where
  "updateSettings t newSettings =
     (let t1 = t\<lparr> settings := (settings t)\<lparr> autoAdvance := autoAdvance newSettings,
                                              longBreakInterval := longBreakInterval newSettings,
                                              soundEnabled := soundEnabled newSettings,
                                              notificationsEnabled := notificationsEnabled newSettings,
                                              durations := durations newSettings \<rparr> \<rparr>
      in if \<not> isRunning t1
         then t1\<lparr> remaining := durations (settings t1) (currentMode t1),
                  remainingAtStart := durations (settings t1) (currentMode t1) \<rparr>
         else t1)"

definition getSettings :: "PomodoroTimer \<Rightarrow> TimerSettings" where
  "getSettings t = settings t"

text \<open>
  \<open>tick(now?)\<close> returns the completion flag and the engine. \<open>now ?? Date.now()\<close> takes the
  clock only when \<open>now\<close> is omitted.
\<close>

definition tick :: "PomodoroTimer \<Rightarrow> int \<Rightarrow> int option \<Rightarrow> bool \<times> PomodoroTimer" where
  "tick t clock now =
     (if \<not> isRunning t then (False, t)
      else
        (let currentTime = (case now of None \<Rightarrow> clock | Some n \<Rightarrow> n);
             t1 = (case sessionStartTime t of
                     None \<Rightarrow> t\<lparr> sessionStartTime := Some currentTime,
                                remainingAtStart := remaining t \<rparr>
                   | Some s \<Rightarrow> t);
             s1 = (case sessionStartTime t1 of None \<Rightarrow> currentTime | Some s \<Rightarrow> s);
             elapsed = (currentTime - s1) div 1000;
             newRemaining = remainingAtStart t1 - elapsed
         in if newRemaining \<le> 0
            then
              (let t2 = t1\<lparr> remaining := 0, isRunning := False, sessionStartTime := None \<rparr>;
                   t3 = (if currentMode t2 = focus
                         then t2\<lparr> completedFocusSessions := completedFocusSessions t2 + 1 \<rparr>
                         else t2)
               in if autoAdvance (settings t3)
                  then
                    (let nextMode =
                       (if currentMode t3 = focus
                        then
                          (if longBreakInterval (settings t3) > 0 \<and>
                              js_rem (completedFocusSessions t3) (longBreakInterval (settings t3)) = 0
                           then long_break
                           else short_break)
                        else focus)
                     in (True, switchMode t3 nextMode))
                  else (True, t3))
            else (False, t1\<lparr> remaining := newRemaining \<rparr>)))"

definition resumeFromState ::
    "PomodoroTimer \<Rightarrow> int \<Rightarrow> PomodoroMode \<Rightarrow> bool \<Rightarrow> int \<Rightarrow> int \<Rightarrow> PomodoroTimer" where
  "resumeFromState t remainingSeconds mode running completed clock =
     t\<lparr> currentMode := mode,
        remaining := remainingSeconds,
        remainingAtStart := remainingSeconds,
        completedFocusSessions := completed,
        isRunning := running,
        sessionStartTime := (if running then Some clock else None) \<rparr>"

subsection \<open>The settings of the repository's tests\<close>

definition testSettings :: "bool \<Rightarrow> TimerSettings" where
  "testSettings auto =
     \<lparr> durations = (\<lambda>m. case m of focus \<Rightarrow> 5 | short_break \<Rightarrow> 2 | long_break \<Rightarrow> 3),
       autoAdvance = auto,
       longBreakInterval = 2,
       soundEnabled = False,
       notificationsEnabled = False \<rparr>"

text \<open>
  The engine of the test "triggers long break after specified focus sessions", just before
  its second focus session completes: one focus session has completed, the mode was
  switched back to focus by hand and the timer was started again.
\<close>

definition secondFocusRunning :: PomodoroTimer where
  "secondFocusRunning =
     start (switchMode (snd (tick (start (createPomodoroTimer (testSettings True)) 0) 0 (Some 5000)))
              focus) 6000"

subsection \<open>Sequences of calls\<close>

text \<open>
  One constructor per method, carrying the arguments of the call and, for the methods that
  read \<open>Date.now()\<close>, the value read (the last argument of \<open>ResumeFromState\<close>, the first
  of \<open>Tick\<close>).
\<close>

datatype TimerOp =
    Start int
  | Pause int
  | Reset "PomodoroMode option"
  | SwitchMode PomodoroMode
  | UpdateSettings TimerSettings
  | Tick int "int option"
  | ResumeFromState int PomodoroMode bool int int

fun apply_op :: "PomodoroTimer \<Rightarrow> TimerOp \<Rightarrow> PomodoroTimer" where
  "apply_op t (Start clock) = start t clock"
| "apply_op t (Pause clock) = pause t clock"
| "apply_op t (Reset mode_arg) = reset t mode_arg"
| "apply_op t (SwitchMode mode) = switchMode t mode"
| "apply_op t (UpdateSettings newSettings) = updateSettings t newSettings"
| "apply_op t (Tick clock now) = snd (tick t clock now)"
| "apply_op t (ResumeFromState remainingSeconds mode running completed clock) =
     resumeFromState t remainingSeconds mode running completed clock"

fun run :: "PomodoroTimer \<Rightarrow> TimerOp list \<Rightarrow> PomodoroTimer" where
  "run t [] = t"
| "run t (op # ops) = run (apply_op t op) ops"

fun is_resume :: "TimerOp \<Rightarrow> bool" where
  "is_resume (ResumeFromState remainingSeconds mode running completed clock) = True"
| "is_resume op = False"

fun no_resume :: "TimerOp list \<Rightarrow> bool" where
  "no_resume [] = True"
| "no_resume (op # ops) = (if is_resume op then False else no_resume ops)"

subsection \<open>The range of \<open>remaining\<close>\<close>

definition in_range :: "PomodoroTimer \<Rightarrow> bool" where
  "in_range t = (0 \<le> remaining t \<and> remaining t \<le> durations (settings t) (currentMode t))"

definition nonneg_durations :: "TimerSettings \<Rightarrow> bool" where
  "nonneg_durations s =
     (0 \<le> durations s focus \<and> 0 \<le> durations s short_break \<and> 0 \<le> durations s long_break)"

text \<open>
  The calls under which the range is kept. \<open>start\<close>, \<open>reset\<close> and \<open>switchMode\<close> are
  unrestricted. \<open>pause\<close> and \<open>tick\<close> must not use a time earlier than the start timestamp;
  \<open>updateSettings\<close> must bring non-negative durations and, while the timer runs, a duration
  of the current mode that is not below \<open>remainingAtStart\<close>; \<open>resumeFromState\<close> must bring a
  remaining time within the range of the mode it restores.
\<close>

fun admissible :: "PomodoroTimer \<Rightarrow> TimerOp \<Rightarrow> bool" where
  "admissible t (Start clock) = True"
| "admissible t (Pause clock) =
     (case sessionStartTime t of None \<Rightarrow> True | Some s \<Rightarrow> s \<le> clock)"
| "admissible t (Reset mode_arg) = True"
| "admissible t (SwitchMode mode) = True"
| "admissible t (UpdateSettings newSettings) =
     (nonneg_durations newSettings \<and>
      (if isRunning t then remainingAtStart t \<le> durations newSettings (currentMode t) else True))"
| "admissible t (Tick clock now) =
     (case sessionStartTime t of
        None \<Rightarrow> True
      | Some s \<Rightarrow> s \<le> (case now of None \<Rightarrow> clock | Some n \<Rightarrow> n))"
| "admissible t (ResumeFromState remainingSeconds mode running completed clock) =
     (0 \<le> remainingSeconds \<and> remainingSeconds \<le> durations (settings t) mode)"

fun admissible_run :: "PomodoroTimer \<Rightarrow> TimerOp list \<Rightarrow> bool" where
  "admissible_run t [] = True"
| "admissible_run t (op # ops) =
     (if admissible t op then admissible_run (apply_op t op) ops else False)"

text \<open>The invariant behind the range: what a running engine knows about its snapshot.\<close>

definition engine_inv :: "PomodoroTimer \<Rightarrow> bool" where
  "engine_inv t =
     (nonneg_durations (settings t) \<and> in_range t \<and>
      (if isRunning t
       then sessionStartTime t \<noteq> None \<and> remaining t \<le> remainingAtStart t \<and>
            remainingAtStart t \<le> durations (settings t) (currentMode t)
       else True))"

subsection \<open>The candidate of a tick\<close>

text \<open>
  The local \<open>newRemaining\<close> of \<open>tick\<close> (the candidate remaining time): the snapshot minus
  the whole seconds elapsed since the start timestamp. A running engine without a start
  timestamp takes the time of the tick as its start and \<open>remaining\<close> as its snapshot first.
\<close>

definition newRemaining :: "PomodoroTimer \<Rightarrow> int \<Rightarrow> int option \<Rightarrow> int" where
  "newRemaining t clock now =
     (let currentTime = (case now of None \<Rightarrow> clock | Some n \<Rightarrow> n)
      in case sessionStartTime t of
           None \<Rightarrow> remaining t - (currentTime - currentTime) div 1000
         | Some s \<Rightarrow> remainingAtStart t - (currentTime - s) div 1000)"

text \<open>
  The engine of the auto-advance test after its focus session has completed and the short
  break has been started.
\<close>

definition firstBreakRunning :: PomodoroTimer where
  "firstBreakRunning =
     start (snd (tick (start (createPomodoroTimer (testSettings True)) 0) 0 (Some 5000))) 6000"

subsection \<open>The caller of \<open>updateSettings\<close> (lib/usePomodoroTimer.ts)\<close>

text \<open>
  The engine's \<open>updateSettings\<close> takes a complete \<open>TimerSettings\<close>. Partial updates go to
  the hook's \<open>updateSettings(partial)\<close>, which builds the complete record
  \<open>{ ...prev.timerSettings, ...partial, durations: { ...prev.timerSettings.durations,
  ...partial.durations }, notificationsEnabled }\<close> and hands it to the engine.

  \<open>hook_durations\<close> is the duration object of that record. The update's \<open>durations\<close> is
  \<open>None\<close> when the update has none (spreading \<open>undefined\<close> adds nothing); otherwise it is
  an object in which a mode's key may be missing, and a key that is there carries a number.
  The second spread overwrites the keys it has and leaves the others.
\<close>

definition hook_durations ::
    "(PomodoroMode \<Rightarrow> int) \<Rightarrow> (PomodoroMode \<rightharpoonup> int) option \<Rightarrow> (PomodoroMode \<Rightarrow> int)" where
  "hook_durations prev partial_durations =
     (\<lambda>m. case partial_durations of
            None \<Rightarrow> prev m
          | Some d \<Rightarrow> (case d m of None \<Rightarrow> prev m | Some v \<Rightarrow> v))"

text \<open>The duration an update carries for a mode, \<open>None\<close> when it is not present.\<close>

definition update_duration :: "(PomodoroMode \<rightharpoonup> int) option \<Rightarrow> PomodoroMode \<Rightarrow> int option" where
  "update_duration partial_durations m =
     (case partial_durations of None \<Rightarrow> None | Some d \<Rightarrow> d m)"

text \<open>
  The record the hook passes to the engine: its duration object is the merge above; its
  other fields are those of \<open>others\<close>, whatever the top-level spread and the notification
  permission have made them.
\<close>

definition hook_newSettings ::
    "TimerSettings \<Rightarrow> TimerSettings \<Rightarrow> (PomodoroMode \<rightharpoonup> int) option \<Rightarrow> TimerSettings" where
  "hook_newSettings others prev partial_durations =
     others\<lparr> durations := hook_durations (durations prev) partial_durations \<rparr>"

text \<open>The update \<open>{ durations: { focus: 10 } }\<close> of the duration object.\<close>

definition focusOnlyDurations :: "(PomodoroMode \<rightharpoonup> int) option" where
  "focusOnlyDurations = Some [focus \<mapsto> 10]"

section \<open>How the methods compute\<close>

lemma js_rem_eq_0_iff: "0 < b \<Longrightarrow> (js_rem a b = 0) = (b dvd a)"
  by (auto simp: js_rem_def sgn_if mod_eq_0_iff_dvd)

lemma start_idle:
  "\<not> isRunning t \<Longrightarrow>
   start t clock = t\<lparr> isRunning := True, sessionStartTime := Some clock, remainingAtStart := remaining t \<rparr>"
  by (simp add: start_def)

lemma pause_running:
  assumes "isRunning t" and "sessionStartTime t = Some s"
  shows "pause t clock =
           t\<lparr> remaining := max 0 (remainingAtStart t - (clock - s) div 1000),
              isRunning := False, sessionStartTime := None \<rparr>"
  using assms by (simp add: pause_def Let_def)

lemma tick_not_running: "\<not> isRunning t \<Longrightarrow> tick t clock now = (False, t)"
  by (simp add: tick_def)

text \<open>A running engine without a start timestamp takes the time of the tick as its start.\<close>

lemma tick_null_start:
  assumes "isRunning t" and "sessionStartTime t = None"
  shows "tick t clock now =
           tick (t\<lparr> sessionStartTime := Some (case now of None \<Rightarrow> clock | Some n \<Rightarrow> n),
                    remainingAtStart := remaining t \<rparr>) clock now"
  using assms by (simp add: tick_def Let_def)

lemma tick_running_continue:
  assumes "isRunning t" and "sessionStartTime t = Some s"
      and "0 < remainingAtStart t - ((case now of None \<Rightarrow> clock | Some n \<Rightarrow> n) - s) div 1000"
  shows "tick t clock now =
     (False, t\<lparr> remaining := remainingAtStart t - ((case now of None \<Rightarrow> clock | Some n \<Rightarrow> n) - s) div 1000 \<rparr>)"
  using assms by (simp add: tick_def Let_def)

lemma tick_running_complete:
  assumes "isRunning t" and "sessionStartTime t = Some s"
      and "remainingAtStart t - ((case now of None \<Rightarrow> clock | Some n \<Rightarrow> n) - s) div 1000 \<le> 0"
  shows "fst (tick t clock now) = True"
    and "isRunning (snd (tick t clock now)) = False"
    and "sessionStartTime (snd (tick t clock now)) = None"
    and "settings (snd (tick t clock now)) = settings t"
    and "completedFocusSessions (snd (tick t clock now)) =
           (if currentMode t = focus then completedFocusSessions t + 1 else completedFocusSessions t)"
    and "currentMode (snd (tick t clock now)) =
           (if autoAdvance (settings t)
            then (if currentMode t = focus
                  then (if 0 < longBreakInterval (settings t) \<and>
                           js_rem (completedFocusSessions t + 1) (longBreakInterval (settings t)) = 0
                        then long_break else short_break)
                  else focus)
            else currentMode t)"
    and "remaining (snd (tick t clock now)) =
           (if autoAdvance (settings t)
            then durations (settings t) (currentMode (snd (tick t clock now)))
            else 0)"
  using assms by (simp_all add: tick_def Let_def switchMode_def)

text \<open>The observable state after a tick of a running engine, and the flag it returns.\<close>

lemma tick_running_state:
  assumes "isRunning t" and "sessionStartTime t = Some s"
  shows "state (snd (tick t clock now)) =
     (let cand = remainingAtStart t - ((case now of None \<Rightarrow> clock | Some n \<Rightarrow> n) - s) div 1000;
          count = (if currentMode t = focus then completedFocusSessions t + 1 else completedFocusSessions t);
          nextMode = (if currentMode t = focus
                  then (if 0 < longBreakInterval (settings t) \<and> js_rem count (longBreakInterval (settings t)) = 0
                        then long_break else short_break)
                  else focus)
      in if 0 < cand then (currentMode t, cand, True, completedFocusSessions t)
         else if autoAdvance (settings t) then (nextMode, durations (settings t) nextMode, False, count)
         else (currentMode t, 0, False, count))"
    and "fst (tick t clock now) =
           (remainingAtStart t - ((case now of None \<Rightarrow> clock | Some n \<Rightarrow> n) - s) div 1000 \<le> 0)"
proof -
  let ?cand = "remainingAtStart t - ((case now of None \<Rightarrow> clock | Some n \<Rightarrow> n) - s) div 1000"
  show "state (snd (tick t clock now)) =
     (let cand = ?cand;
          count = (if currentMode t = focus then completedFocusSessions t + 1 else completedFocusSessions t);
          nextMode = (if currentMode t = focus
                  then (if 0 < longBreakInterval (settings t) \<and> js_rem count (longBreakInterval (settings t)) = 0
                        then long_break else short_break)
                  else focus)
      in if 0 < cand then (currentMode t, cand, True, completedFocusSessions t)
         else if autoAdvance (settings t) then (nextMode, durations (settings t) nextMode, False, count)
         else (currentMode t, 0, False, count))"
  proof (cases "0 < ?cand")
    case True
    from tick_running_continue [OF assms True] assms(1) True show ?thesis
      by (simp add: state_def Let_def)
  next
    case False
    then have fin: "?cand \<le> 0" by simp
    from tick_running_complete(2,5,6,7) [OF assms fin] False show ?thesis
      by (simp add: state_def Let_def)
  qed
  show "fst (tick t clock now) = (?cand \<le> 0)"
  proof (cases "0 < ?cand")
    case True
    from tick_running_continue [OF assms True] True show ?thesis by simp
  next
    case False
    then have fin: "?cand \<le> 0" by simp
    from tick_running_complete(1) [OF assms fin] fin show ?thesis by simp
  qed
qed

lemma tick_completion_running_started:
  assumes "autoAdvance (settings t)" and "longBreakInterval (settings t) = n" and "0 < n"
      and "isRunning t" and "sessionStartTime t = Some s"
      and "fst (tick t clock now) = True"
  shows "completedFocusSessions (snd (tick t clock now)) =
           (if currentMode t = focus then completedFocusSessions t + 1 else completedFocusSessions t)
       \<and> currentMode (snd (tick t clock now)) =
           (if currentMode t = focus
            then (if n dvd completedFocusSessions t + 1 then long_break else short_break)
            else focus)"
proof -
  let ?cand = "remainingAtStart t - ((case now of None \<Rightarrow> clock | Some n \<Rightarrow> n) - s) div 1000"
  have fin: "?cand \<le> 0"
  proof (rule ccontr)
    assume "\<not> ?cand \<le> 0"
    then have "0 < ?cand" by simp
    from tick_running_continue [OF assms(4,5) this] assms(6) show False by simp
  qed
  show ?thesis
    using tick_running_complete(5,6) [OF assms(4,5) fin] assms(1,2,3)
    by (simp add: js_rem_eq_0_iff)
qed

section \<open>Running a full session\<close>

text \<open>
  C1 (amended). For every settings record and every positive duration
  \<open>d = durations[mode]\<close> of the current mode, \<open>start()\<close> at time \<open>t0\<close> on an idle engine
  whose remaining time is at most \<open>d\<close> (the full duration in particular), followed by
  \<open>tick(t0 + d * 1000)\<close>, reports completion and leaves \<open>isRunning = false\<close> with the start
  timestamp cleared, for any settings; a focus session is counted. When \<open>autoAdvance\<close>
  is false the mode is unchanged and \<open>remaining = 0\<close>. When \<open>autoAdvance\<close> is true the
  engine has switched to the next mode (from focus: long break if \<open>longBreakInterval > 0\<close>
  divides the incremented count, short break otherwise; from a break: focus) and
  \<open>remaining\<close> is the full duration of that next mode.
\<close>

theorem start_tick_full_duration:
  assumes "\<not> isRunning t" and "durations (settings t) (currentMode t) = d"
      and "remaining t \<le> d" and "0 < d"
  shows "fst (tick (start t t0) clock (Some (t0 + d * 1000))) = True
       \<and> isRunning (snd (tick (start t t0) clock (Some (t0 + d * 1000)))) = False
       \<and> sessionStartTime (snd (tick (start t t0) clock (Some (t0 + d * 1000)))) = None
       \<and> completedFocusSessions (snd (tick (start t t0) clock (Some (t0 + d * 1000)))) =
           (if currentMode t = focus then completedFocusSessions t + 1 else completedFocusSessions t)
       \<and> currentMode (snd (tick (start t t0) clock (Some (t0 + d * 1000)))) =
           (if autoAdvance (settings t)
            then (if currentMode t = focus
                  then (if 0 < longBreakInterval (settings t) \<and>
                           longBreakInterval (settings t) dvd completedFocusSessions t + 1
                        then long_break else short_break)
                  else focus)
            else currentMode t)
       \<and> remaining (snd (tick (start t t0) clock (Some (t0 + d * 1000)))) =
           (if autoAdvance (settings t)
            then durations (settings t)
                   (if currentMode t = focus
                    then (if 0 < longBreakInterval (settings t) \<and>
                             longBreakInterval (settings t) dvd completedFocusSessions t + 1
                          then long_break else short_break)
                    else focus)
            else 0)"
proof -
  define u where "u = start t t0"
  have u: "u = t\<lparr> isRunning := True, sessionStartTime := Some t0, remainingAtStart := remaining t \<rparr>"
    unfolding u_def by (rule start_idle [OF assms(1)])
  have run: "isRunning u" and st: "sessionStartTime u = Some t0"
    and se: "settings u = settings t" and mo: "currentMode u = currentMode t"
    and co: "completedFocusSessions u = completedFocusSessions t"
    by (simp_all add: u)
  have fin: "remainingAtStart u - ((case Some (t0 + d * 1000) of None \<Rightarrow> clock | Some n \<Rightarrow> n) - t0) div 1000 \<le> 0"
    using assms(3) by (simp add: u)
  note compl = tick_running_complete [OF run st fin]
  have modes: "currentMode (snd (tick u clock (Some (t0 + d * 1000)))) =
           (if autoAdvance (settings t)
            then (if currentMode t = focus
                  then (if 0 < longBreakInterval (settings t) \<and>
                           longBreakInterval (settings t) dvd completedFocusSessions t + 1
                        then long_break else short_break)
                  else focus)
            else currentMode t)"
    using compl(6) by (auto simp: se mo co js_rem_eq_0_iff)
  have rem: "remaining (snd (tick u clock (Some (t0 + d * 1000)))) =
           (if autoAdvance (settings t)
            then durations (settings t) (currentMode (snd (tick u clock (Some (t0 + d * 1000)))))
            else 0)"
    using compl(7) by (simp add: se)
  have cnt: "completedFocusSessions (snd (tick u clock (Some (t0 + d * 1000)))) =
           (if currentMode t = focus then completedFocusSessions t + 1 else completedFocusSessions t)"
    using compl(5) by (simp add: mo co)
  from compl(1,2,3) cnt modes rem show ?thesis
    unfolding u_def by (simp only: if_True if_False) (simp split: if_splits)
qed

text \<open>
  The first two tests of the repository: focus lasts 5 seconds and the short break 2.
  Without \<open>autoAdvance\<close> the engine stops in focus at 0; with it the engine is at the start
  of the short break.
\<close>

theorem start_tick_full_duration_witness:
  "\<not> isRunning (createPomodoroTimer (testSettings False))
   \<and> durations (settings (createPomodoroTimer (testSettings False)))
        (currentMode (createPomodoroTimer (testSettings False))) = 5
   \<and> remaining (createPomodoroTimer (testSettings False)) \<le> 5
   \<and> (0::int) < 5
   \<and> fst (tick (start (createPomodoroTimer (testSettings False)) 7000) 7000 (Some (7000 + 5 * 1000))) = True
   \<and> state (snd (tick (start (createPomodoroTimer (testSettings False)) 7000) 7000
        (Some (7000 + 5 * 1000)))) = (focus, 0, False, 1)
   \<and> \<not> isRunning (createPomodoroTimer (testSettings True))
   \<and> durations (settings (createPomodoroTimer (testSettings True)))
        (currentMode (createPomodoroTimer (testSettings True))) = 5
   \<and> remaining (createPomodoroTimer (testSettings True)) \<le> 5
   \<and> fst (tick (start (createPomodoroTimer (testSettings True)) 7000) 7000 (Some (7000 + 5 * 1000))) = True
   \<and> state (snd (tick (start (createPomodoroTimer (testSettings True)) 7000) 7000
        (Some (7000 + 5 * 1000)))) = (short_break, 2, False, 1)"
proof -
  have f1: "\<not> isRunning (createPomodoroTimer (testSettings False))"
    by (simp add: createPomodoroTimer_def)
  have f2: "durations (settings (createPomodoroTimer (testSettings False)))
              (currentMode (createPomodoroTimer (testSettings False))) = 5"
    by (simp add: createPomodoroTimer_def testSettings_def)
  have f3: "remaining (createPomodoroTimer (testSettings False)) \<le> 5"
    by (simp add: createPomodoroTimer_def testSettings_def)
  have a1: "\<not> isRunning (createPomodoroTimer (testSettings True))"
    by (simp add: createPomodoroTimer_def)
  have a2: "durations (settings (createPomodoroTimer (testSettings True)))
              (currentMode (createPomodoroTimer (testSettings True))) = 5"
    by (simp add: createPomodoroTimer_def testSettings_def)
  have a3: "remaining (createPomodoroTimer (testSettings True)) \<le> 5"
    by (simp add: createPomodoroTimer_def testSettings_def)
  have h4: "(0::int) < 5" by simp
  have ff: "autoAdvance (settings (createPomodoroTimer (testSettings False))) = False"
       "currentMode (createPomodoroTimer (testSettings False)) = focus"
       "completedFocusSessions (createPomodoroTimer (testSettings False)) = 0"
    by (simp_all add: createPomodoroTimer_def testSettings_def)
  have af: "autoAdvance (settings (createPomodoroTimer (testSettings True))) = True"
       "currentMode (createPomodoroTimer (testSettings True)) = focus"
       "completedFocusSessions (createPomodoroTimer (testSettings True)) = 0"
       "longBreakInterval (settings (createPomodoroTimer (testSettings True))) = 2"
       "durations (settings (createPomodoroTimer (testSettings True))) short_break = 2"
    by (simp_all add: createPomodoroTimer_def testSettings_def)
  from start_tick_full_duration [OF f1 f2 f3 h4, of 7000 7000]
       start_tick_full_duration [OF a1 a2 a3 h4, of 7000 7000]
       f1 f2 f3 a1 a2 a3
  show ?thesis by (simp add: state_def ff af)
qed

text \<open>
  The claim as the specification words it asks for \<open>remaining = 0\<close> whatever \<open>autoAdvance\<close>
  is. With the settings of the second test (\<open>autoAdvance\<close> true, focus 5 seconds, short
  break 2 seconds) the engine is at the start of the short break after the tick.
\<close>

theorem start_tick_counterexample:
  "0 < durations (testSettings True) focus
   \<and> \<not> (remaining (snd (tick (start (createPomodoroTimer (testSettings True)) 7000) 7000
              (Some (7000 + durations (testSettings True) focus * 1000)))) = 0
        \<and> isRunning (snd (tick (start (createPomodoroTimer (testSettings True)) 7000) 7000
              (Some (7000 + durations (testSettings True) focus * 1000)))) = False)"
  by (simp add: tick_def start_def createPomodoroTimer_def testSettings_def switchMode_def
        js_rem_def Let_def)

lemma start_tick_autoAdvance_example:
  "state (snd (tick (start (createPomodoroTimer (testSettings True)) 7000) 7000 (Some 12000)))
     = (short_break, 2, False, 1)"
  by (simp add: state_def tick_def start_def createPomodoroTimer_def testSettings_def switchMode_def
        js_rem_def Let_def)

section \<open>Pause and resume\<close>

text \<open>
  C2. Pause-then-resume excludes idle time. Take an idle engine at the full duration of
  its mode and \<open>k\<close> with \<open>0 < k < duration\<close>. After \<open>start()\<close> at \<open>t0\<close>,
  \<open>tick(t0 + k * 1000)\<close>, \<open>pause()\<close> at \<open>t0 + k * 1000\<close>, an idle gap \<open>g \<ge> 0\<close>,
  \<open>start()\<close> at \<open>t0 + k * 1000 + g\<close> and \<open>tick(t0 + k * 1000 + g + s * 1000)\<close>, the
  observable state (mode, remaining, isRunning, completedFocusSessions) and the flag
  returned by the last tick are those of \<open>start()\<close> at \<open>t0\<close> followed by
  \<open>tick(t0 + (k + s) * 1000)\<close>, that is, of a continuous run of \<open>k + s\<close> seconds. The gap
  does not reduce \<open>remaining\<close>: at the resume it is \<open>duration - k\<close>, whatever \<open>g\<close> is.
\<close>

theorem pause_resume_excludes_idle:
  assumes idle: "\<not> isRunning t"
      and full: "remaining t = durations (settings t) (currentMode t)"
      and k: "0 < k" "k < durations (settings t) (currentMode t)"
      and g: "0 \<le> g"
  shows "state (snd (tick (start (pause (snd (tick (start t t0) c1 (Some (t0 + k * 1000)))) (t0 + k * 1000))
                               (t0 + k * 1000 + g))
                         c2 (Some (t0 + k * 1000 + g + s * 1000))))
         = state (snd (tick (start t t0) c3 (Some (t0 + (k + s) * 1000))))
       \<and> fst (tick (start (pause (snd (tick (start t t0) c1 (Some (t0 + k * 1000)))) (t0 + k * 1000))
                               (t0 + k * 1000 + g))
                         c2 (Some (t0 + k * 1000 + g + s * 1000)))
         = fst (tick (start t t0) c3 (Some (t0 + (k + s) * 1000)))
       \<and> remaining (start (pause (snd (tick (start t t0) c1 (Some (t0 + k * 1000)))) (t0 + k * 1000))
                               (t0 + k * 1000 + g))
         = durations (settings t) (currentMode t) - k"
proof -
  define d where "d = durations (settings t) (currentMode t)"
  define a where "a = start t t0"
  define b where "b = snd (tick a c1 (Some (t0 + k * 1000)))"
  define c where "c = pause b (t0 + k * 1000)"
  define e where "e = start c (t0 + k * 1000 + g)"
  have a: "a = t\<lparr> isRunning := True, sessionStartTime := Some t0, remainingAtStart := d \<rparr>"
    using idle full by (simp add: a_def d_def start_idle)
  have a_run: "isRunning a" and a_st: "sessionStartTime a = Some t0" by (simp_all add: a)
  have "0 < remainingAtStart a - ((case Some (t0 + k * 1000) of None \<Rightarrow> c1 | Some n \<Rightarrow> n) - t0) div 1000"
    using k by (simp add: a d_def)
  from tick_running_continue [OF a_run a_st this]
  have b: "b = a\<lparr> remaining := d - k \<rparr>"
    by (simp add: b_def a)
  have b_run: "isRunning b" and b_st: "sessionStartTime b = Some t0" by (simp_all add: b a)
  have c: "c = b\<lparr> remaining := d - k, isRunning := False, sessionStartTime := None \<rparr>"
  proof -
    have "c = b\<lparr> remaining := max 0 (remainingAtStart b - (t0 + k * 1000 - t0) div 1000),
                  isRunning := False, sessionStartTime := None \<rparr>"
      unfolding c_def by (rule pause_running [OF b_run b_st])
    moreover have "remainingAtStart b = d" by (simp add: b a)
    ultimately show ?thesis using k by (simp add: d_def)
  qed
  have c_idle: "\<not> isRunning c" by (simp add: c)
  have e: "e = t\<lparr> remaining := d - k, isRunning := True,
                    sessionStartTime := Some (t0 + k * 1000 + g), remainingAtStart := d - k \<rparr>"
  proof -
    have "e = c\<lparr> isRunning := True, sessionStartTime := Some (t0 + k * 1000 + g),
                  remainingAtStart := remaining c \<rparr>"
      unfolding e_def by (rule start_idle [OF c_idle])
    then show ?thesis by (simp add: c b a)
  qed
  have e_run: "isRunning e" and e_st: "sessionStartTime e = Some (t0 + k * 1000 + g)"
    by (simp_all add: e)
  have el_s: "(t0 + k * 1000 + g + s * 1000 - (t0 + k * 1000 + g)) div 1000 = s" by simp
  have el_ks: "(t0 + (k + s) * 1000 - t0) div 1000 = k + s" by simp
  have st_eq: "state (snd (tick e c2 (Some (t0 + k * 1000 + g + s * 1000))))
             = state (snd (tick a c3 (Some (t0 + (k + s) * 1000))))"
    unfolding tick_running_state(1) [OF e_run e_st] tick_running_state(1) [OF a_run a_st]
    by (simp add: e a el_s el_ks Let_def algebra_simps)
  have fl_eq: "fst (tick e c2 (Some (t0 + k * 1000 + g + s * 1000)))
             = fst (tick a c3 (Some (t0 + (k + s) * 1000)))"
    unfolding tick_running_state(2) [OF e_run e_st] tick_running_state(2) [OF a_run a_st]
    by (simp add: e a el_s el_ks algebra_simps)
  have rem: "remaining e = d - k" by (simp add: e)
  from st_eq fl_eq rem show ?thesis
    unfolding e_def c_def b_def a_def d_def by simp
qed

text \<open>
  The fourth test of the repository: 2 seconds of focus, a pause, 2 idle seconds, then the
  3 seconds that were left.
\<close>

theorem pause_resume_excludes_idle_witness:
  "\<not> isRunning (createPomodoroTimer (testSettings False))
   \<and> remaining (createPomodoroTimer (testSettings False)) =
       durations (settings (createPomodoroTimer (testSettings False)))
         (currentMode (createPomodoroTimer (testSettings False)))
   \<and> (0::int) < 2
   \<and> 2 < durations (settings (createPomodoroTimer (testSettings False)))
         (currentMode (createPomodoroTimer (testSettings False)))
   \<and> (0::int) \<le> 2000
   \<and> state (snd (tick (start (pause (snd (tick (start (createPomodoroTimer (testSettings False)) 0) 0
                                               (Some (0 + 2 * 1000)))) (0 + 2 * 1000))
                               (0 + 2 * 1000 + 2000))
                         0 (Some (0 + 2 * 1000 + 2000 + 3 * 1000))))
       = state (snd (tick (start (createPomodoroTimer (testSettings False)) 0) 0 (Some (0 + (2 + 3) * 1000))))
   \<and> remaining (start (pause (snd (tick (start (createPomodoroTimer (testSettings False)) 0) 0
                                       (Some (0 + 2 * 1000)))) (0 + 2 * 1000))
                  (0 + 2 * 1000 + 2000))
       = 3"
proof -
  have h1: "\<not> isRunning (createPomodoroTimer (testSettings False))"
    by (simp add: createPomodoroTimer_def)
  have h2: "remaining (createPomodoroTimer (testSettings False)) =
       durations (settings (createPomodoroTimer (testSettings False)))
         (currentMode (createPomodoroTimer (testSettings False)))"
    by (simp add: createPomodoroTimer_def)
  have h3: "(0::int) < 2" by simp
  have h4: "2 < durations (settings (createPomodoroTimer (testSettings False)))
         (currentMode (createPomodoroTimer (testSettings False)))"
    by (simp add: createPomodoroTimer_def testSettings_def)
  have h5: "(0::int) \<le> 2000" by simp
  have d: "durations (settings (createPomodoroTimer (testSettings False)))
         (currentMode (createPomodoroTimer (testSettings False))) = 5"
    by (simp add: createPomodoroTimer_def testSettings_def)
  from pause_resume_excludes_idle [OF h1 h2 h3 h4 h5, of 0 0 0 3 0] h1 h2 h4 d
  show ?thesis by simp
qed

lemma pause_resume_test_states:
  "state (snd (tick (start (createPomodoroTimer (testSettings False)) 0) 0 (Some 2000)))
     = (focus, 3, True, 0)"
  "state (snd (tick (pause (snd (tick (start (createPomodoroTimer (testSettings False)) 0) 0 (Some 2000)))
                       2000) 4000 (Some 4000)))
     = (focus, 3, False, 0)"
  "state (snd (tick (start (pause (snd (tick (start (createPomodoroTimer (testSettings False)) 0) 0
                                           (Some 2000))) 2000) 4000)
                 7000 (Some 7000)))
     = (focus, 0, False, 1)"
  by (simp_all add: state_def tick_def start_def pause_def createPomodoroTimer_def testSettings_def
        Let_def)

section \<open>Completion and the next mode\<close>

text \<open>
  \<open>tick\<close> reports a completion exactly when the engine runs and the candidate is not
  positive; otherwise a running engine takes the candidate as its remaining time.
\<close>

lemma tick_flag:
  "fst (tick t clock now) = (isRunning t \<and> newRemaining t clock now \<le> 0)"
  by (simp add: tick_def newRemaining_def Let_def split: option.splits)

lemma tick_continue_remaining:
  "isRunning t \<Longrightarrow> 0 < newRemaining t clock now \<Longrightarrow>
   remaining (snd (tick t clock now)) = newRemaining t clock now"
  by (simp add: tick_def newRemaining_def Let_def split: option.splits)

text \<open>
  C3. With \<open>autoAdvance\<close> true and \<open>longBreakInterval = n > 0\<close>, whenever \<open>tick\<close> completes a
  session (the engine runs and the candidate remaining time is not positive): if the mode
  is focus, completedFocusSessions is incremented and the engine then switches to long
  break exactly when the incremented count is divisible by \<open>n\<close>, and to short break
  otherwise; if the mode is short break or long break, the next mode is focus and the
  count is unchanged. The tick returns the completed signal.
\<close>

theorem tick_completion_next_mode:
  assumes "autoAdvance (settings t)" and "longBreakInterval (settings t) = n" and "0 < n"
      and "isRunning t" and "newRemaining t clock now \<le> 0"
  shows "fst (tick t clock now) = True
       \<and> completedFocusSessions (snd (tick t clock now)) =
           (if currentMode t = focus then completedFocusSessions t + 1 else completedFocusSessions t)
       \<and> currentMode (snd (tick t clock now)) =
           (if currentMode t = focus
            then (if n dvd completedFocusSessions t + 1 then long_break else short_break)
            else focus)"
proof -
  have flag: "fst (tick t clock now) = True"
    using assms(4,5) by (simp add: tick_flag)
  show ?thesis
  proof (cases "sessionStartTime t")
    case (Some s)
    from tick_completion_running_started [OF assms(1,2,3,4) Some flag] flag
    show ?thesis by simp
  next
    case None
    let ?t1 = "t\<lparr> sessionStartTime := Some (case now of None \<Rightarrow> clock | Some n \<Rightarrow> n),
                  remainingAtStart := remaining t \<rparr>"
    have eq: "tick t clock now = tick ?t1 clock now"
      by (rule tick_null_start [OF assms(4) None])
    have "completedFocusSessions (snd (tick ?t1 clock now)) =
           (if currentMode ?t1 = focus then completedFocusSessions ?t1 + 1 else completedFocusSessions ?t1)
       \<and> currentMode (snd (tick ?t1 clock now)) =
           (if currentMode ?t1 = focus
            then (if n dvd completedFocusSessions ?t1 + 1 then long_break else short_break)
            else focus)"
      using assms(1,2,3,4) flag eq
      by (intro tick_completion_running_started) simp_all
    with flag show ?thesis unfolding eq by simp
  qed
qed

text \<open>
  The second and third tests of the repository, with \<open>longBreakInterval = 2\<close>: the first
  focus completion leads to the short break, the second to the long break, and the
  completion of the short break leads back to focus.
\<close>

theorem tick_completion_next_mode_witness:
  "autoAdvance (settings (start (createPomodoroTimer (testSettings True)) 0))
   \<and> longBreakInterval (settings (start (createPomodoroTimer (testSettings True)) 0)) = 2
   \<and> (0::int) < 2
   \<and> isRunning (start (createPomodoroTimer (testSettings True)) 0)
   \<and> newRemaining (start (createPomodoroTimer (testSettings True)) 0) 0 (Some 5000) \<le> 0
   \<and> state (snd (tick (start (createPomodoroTimer (testSettings True)) 0) 0 (Some 5000)))
        = (short_break, 2, False, 1)
   \<and> autoAdvance (settings secondFocusRunning)
   \<and> longBreakInterval (settings secondFocusRunning) = 2
   \<and> isRunning secondFocusRunning
   \<and> newRemaining secondFocusRunning 11000 None \<le> 0
   \<and> currentMode secondFocusRunning = focus
   \<and> fst (tick secondFocusRunning 11000 None) = True
   \<and> completedFocusSessions (snd (tick secondFocusRunning 11000 None)) = 2
   \<and> currentMode (snd (tick secondFocusRunning 11000 None)) = long_break
   \<and> autoAdvance (settings firstBreakRunning)
   \<and> longBreakInterval (settings firstBreakRunning) = 2
   \<and> isRunning firstBreakRunning
   \<and> newRemaining firstBreakRunning 8000 None \<le> 0
   \<and> currentMode firstBreakRunning = short_break
   \<and> fst (tick firstBreakRunning 8000 None) = True
   \<and> completedFocusSessions (snd (tick firstBreakRunning 8000 None)) = 1
   \<and> currentMode (snd (tick firstBreakRunning 8000 None)) = focus"
proof -
  have ffr: "start (createPomodoroTimer (testSettings True)) 0 =
      \<lparr> settings = testSettings True, currentMode = focus, remaining = 5, isRunning = True,
        sessionStartTime = Some 0, remainingAtStart = 5, completedFocusSessions = 0 \<rparr>"
    by (simp add: start_def createPomodoroTimer_def testSettings_def)
  have sfr: "secondFocusRunning =
      \<lparr> settings = testSettings True, currentMode = focus, remaining = 5, isRunning = True,
        sessionStartTime = Some 6000, remainingAtStart = 5, completedFocusSessions = 1 \<rparr>"
    by (simp add: secondFocusRunning_def tick_def start_def switchMode_def createPomodoroTimer_def
          testSettings_def js_rem_def Let_def)
  have fbr: "firstBreakRunning =
      \<lparr> settings = testSettings True, currentMode = short_break, remaining = 2, isRunning = True,
        sessionStartTime = Some 6000, remainingAtStart = 2, completedFocusSessions = 1 \<rparr>"
    by (simp add: firstBreakRunning_def tick_def start_def switchMode_def createPomodoroTimer_def
          testSettings_def js_rem_def Let_def)
  have h3: "(0::int) < 2" by simp
  have a1: "autoAdvance (settings (start (createPomodoroTimer (testSettings True)) 0))"
    and a2: "longBreakInterval (settings (start (createPomodoroTimer (testSettings True)) 0)) = 2"
    and a4: "isRunning (start (createPomodoroTimer (testSettings True)) 0)"
    and a5: "newRemaining (start (createPomodoroTimer (testSettings True)) 0) 0 (Some 5000) \<le> 0"
    and a6: "currentMode (start (createPomodoroTimer (testSettings True)) 0) = focus"
            "completedFocusSessions (start (createPomodoroTimer (testSettings True)) 0) = 0"
    unfolding ffr by (simp_all add: testSettings_def newRemaining_def)
  have a7: "remaining (snd (tick (start (createPomodoroTimer (testSettings True)) 0) 0 (Some 5000))) = 2"
           "isRunning (snd (tick (start (createPomodoroTimer (testSettings True)) 0) 0 (Some 5000))) = False"
    unfolding ffr by (simp_all add: tick_def testSettings_def switchMode_def js_rem_def Let_def)
  have b1: "autoAdvance (settings secondFocusRunning)"
    and b2: "longBreakInterval (settings secondFocusRunning) = 2"
    and b4: "isRunning secondFocusRunning"
    and b5: "newRemaining secondFocusRunning 11000 None \<le> 0"
    and b6: "currentMode secondFocusRunning = focus" "completedFocusSessions secondFocusRunning = 1"
    by (simp_all add: sfr testSettings_def newRemaining_def)
  have c1: "autoAdvance (settings firstBreakRunning)"
    and c2: "longBreakInterval (settings firstBreakRunning) = 2"
    and c4: "isRunning firstBreakRunning"
    and c5: "newRemaining firstBreakRunning 8000 None \<le> 0"
    and c6: "currentMode firstBreakRunning = short_break" "completedFocusSessions firstBreakRunning = 1"
    by (simp_all add: fbr testSettings_def newRemaining_def)
  from tick_completion_next_mode [OF a1 a2 h3 a4 a5]
       tick_completion_next_mode [OF b1 b2 h3 b4 b5]
       tick_completion_next_mode [OF c1 c2 h3 c4 c5]
       a1 a2 a4 a5 a6 a7 b1 b2 b4 b5 b6 c1 c2 c4 c5 c6
  show ?thesis by (simp add: state_def)
qed

section \<open>Manual mode switches\<close>

text \<open>
  C4. For every engine state and every mode \<open>m\<close>, \<open>switchMode(m)\<close> leaves the engine in
  exactly the state \<open>reset(m)\<close> leaves it in: the mode is \<open>m\<close>, remaining and
  remainingAtStart are the duration of \<open>m\<close>, the timer is stopped, the start timestamp is
  cleared, and completedFocusSessions is unchanged.
\<close>

theorem switchMode_eq_reset:
  "switchMode t m = reset t (Some m)
   \<and> currentMode (switchMode t m) = m
   \<and> remaining (switchMode t m) = durations (settings t) m
   \<and> remainingAtStart (switchMode t m) = durations (settings t) m
   \<and> isRunning (switchMode t m) = False
   \<and> sessionStartTime (switchMode t m) = None
   \<and> completedFocusSessions (switchMode t m) = completedFocusSessions t
   \<and> settings (switchMode t m) = settings t"
  by (simp add: switchMode_def reset_def)

section \<open>The completed-session counter\<close>

lemma tick_completed_mono:
  "completedFocusSessions t \<le> completedFocusSessions (snd (tick t clock now))"
proof (cases "isRunning t")
  case False
  then show ?thesis by (simp add: tick_not_running)
next
  case True
  have started: "completedFocusSessions u \<le> completedFocusSessions (snd (tick u clock now))"
    if "isRunning u" and "sessionStartTime u = Some s" for u s
  proof (cases "0 < remainingAtStart u - ((case now of None \<Rightarrow> clock | Some n \<Rightarrow> n) - s) div 1000")
    case True
    from tick_running_continue [OF that True] show ?thesis by simp
  next
    case False
    then have "remainingAtStart u - ((case now of None \<Rightarrow> clock | Some n \<Rightarrow> n) - s) div 1000 \<le> 0"
      by simp
    from tick_running_complete(5) [OF that this] show ?thesis by simp
  qed
  show ?thesis
  proof (cases "sessionStartTime t")
    case (Some s)
    from started [OF True Some] show ?thesis .
  next
    case None
    let ?u = "t\<lparr> sessionStartTime := Some (case now of None \<Rightarrow> clock | Some n \<Rightarrow> n),
                 remainingAtStart := remaining t \<rparr>"
    have "completedFocusSessions ?u \<le> completedFocusSessions (snd (tick ?u clock now))"
      using True by (intro started) simp_all
    then show ?thesis by (simp add: tick_null_start [OF True None])
  qed
qed

lemma apply_op_completed_mono:
  "\<not> is_resume op \<Longrightarrow> completedFocusSessions t \<le> completedFocusSessions (apply_op t op)"
proof (cases op)
  case (Tick clock now)
  then show ?thesis by (simp add: tick_completed_mono)
qed (simp_all add: start_def pause_def reset_def switchMode_def updateSettings_def Let_def
       split: option.splits)

lemma run_completed_mono:
  "no_resume ops \<Longrightarrow> completedFocusSessions t \<le> completedFocusSessions (run t ops)"
proof (induction ops arbitrary: t)
  case Nil
  then show ?case by simp
next
  case (Cons op ops)
  then have a: "\<not> is_resume op" and b: "no_resume ops" by (simp_all split: if_splits)
  have "completedFocusSessions t \<le> completedFocusSessions (apply_op t op)"
    by (rule apply_op_completed_mono [OF a])
  also have "\<dots> \<le> completedFocusSessions (run (apply_op t op) ops)"
    by (rule Cons.IH [OF b])
  finally show ?case by simp
qed

text \<open>
  C7. completedFocusSessions is monotone: from any engine state, after every finite
  sequence of start, pause, reset, switchMode, updateSettings and tick calls the counter
  is at least what it was. reset and switchMode leave it unchanged. resumeFromState
  stores the count it is given, so it is the only call that can lower the counter.
\<close>

theorem completedFocusSessions_monotone:
  "(no_resume ops \<longrightarrow> completedFocusSessions t \<le> completedFocusSessions (run t ops))
   \<and> completedFocusSessions (reset t mode_arg) = completedFocusSessions t
   \<and> completedFocusSessions (switchMode t m) = completedFocusSessions t
   \<and> completedFocusSessions (resumeFromState t r m running c clock) = c"
  by (simp add: run_completed_mono reset_def switchMode_def resumeFromState_def Let_def)

theorem completedFocusSessions_monotone_witness:
  "no_resume [Start 0, Tick 0 (Some 5000), SwitchMode focus, Reset None, Pause 5500,
              UpdateSettings (testSettings True), Start 6000, Tick 11000 None]
   \<and> completedFocusSessions (createPomodoroTimer (testSettings True))
       \<le> completedFocusSessions (run (createPomodoroTimer (testSettings True))
            [Start 0, Tick 0 (Some 5000), SwitchMode focus, Reset None, Pause 5500,
             UpdateSettings (testSettings True), Start 6000, Tick 11000 None])
   \<and> completedFocusSessions (resumeFromState (createPomodoroTimer (testSettings True))
        5 focus False 0 0) = 0"
  using completedFocusSessions_monotone
          [of "[Start 0, Tick 0 (Some 5000), SwitchMode focus, Reset None, Pause 5500,
                UpdateSettings (testSettings True), Start 6000, Tick 11000 None]"
              "createPomodoroTimer (testSettings True)" None focus 5 False 0 0]
  by simp

lemma completed_count_example:
  "completedFocusSessions (run (createPomodoroTimer (testSettings True))
       [Start 0, Tick 0 (Some 5000), SwitchMode focus, Reset None, Pause 5500,
        UpdateSettings (testSettings True), Start 6000, Tick 11000 None]) = 2"
  "completedFocusSessions (run (createPomodoroTimer (testSettings True))
       [Start 0, Tick 0 (Some 5000), ResumeFromState 5 focus False 0 6000]) = 0"
  by (simp_all add: tick_def start_def pause_def reset_def switchMode_def updateSettings_def
        resumeFromState_def createPomodoroTimer_def testSettings_def js_rem_def Let_def)

section \<open>Restoring a persisted state\<close>

text \<open>
  C8. resumeFromState validates and clamps nothing: for every integer
  \<open>remainingSeconds\<close>, negative or above the duration of the mode included, it stores
  \<open>remaining = remainingSeconds\<close> and \<open>remainingAtStart = remainingSeconds\<close> as given (with
  the mode, the running flag and the count), so an out-of-range argument leaves the engine
  with \<open>remaining\<close> outside \<open>[0, durations[mode]]\<close>.
\<close>

theorem resumeFromState_verbatim:
  "remaining (resumeFromState t r m running c clock) = r
   \<and> remainingAtStart (resumeFromState t r m running c clock) = r
   \<and> currentMode (resumeFromState t r m running c clock) = m
   \<and> isRunning (resumeFromState t r m running c clock) = running
   \<and> completedFocusSessions (resumeFromState t r m running c clock) = c
   \<and> settings (resumeFromState t r m running c clock) = settings t
   \<and> (r < 0 \<or> durations (settings t) m < r \<longrightarrow> \<not> in_range (resumeFromState t r m running c clock))"
  by (simp add: resumeFromState_def in_range_def)

theorem resumeFromState_verbatim_witness:
  "remaining (resumeFromState (createPomodoroTimer (testSettings False)) (- 3) focus False 0 1000) = - 3
   \<and> remainingAtStart (resumeFromState (createPomodoroTimer (testSettings False)) (- 3) focus False 0 1000) = - 3
   \<and> ((- 3::int) < 0 \<or> durations (settings (createPomodoroTimer (testSettings False))) focus < - 3)
   \<and> \<not> in_range (resumeFromState (createPomodoroTimer (testSettings False)) (- 3) focus False 0 1000)"
  using resumeFromState_verbatim [of "createPomodoroTimer (testSettings False)" "- 3" focus False 0 1000]
  by simp

lemma resumeFromState_above_duration_example:
  "remaining (resumeFromState (createPomodoroTimer (testSettings False)) 99 short_break True 0 1000) = 99"
  "\<not> in_range (resumeFromState (createPomodoroTimer (testSettings False)) 99 short_break True 0 1000)"
  by (simp_all add: resumeFromState_def in_range_def createPomodoroTimer_def testSettings_def)

section \<open>Reaching zero by pausing\<close>

text \<open>
  C9. Draining a session to zero through pause is not a completion: for every running
  engine whose elapsed whole seconds since the start timestamp are at least
  \<open>remainingAtStart\<close>, \<open>pause()\<close> sets \<open>remaining = 0\<close> and \<open>isRunning = false\<close> and leaves
  completedFocusSessions, the mode and the settings unchanged. A \<open>tick()\<close> at the same
  moment would have reported a completion and counted a focus session.
\<close>

theorem pause_drain_not_completion:
  assumes "isRunning t" and "sessionStartTime t = Some s"
      and "remainingAtStart t \<le> (clock - s) div 1000"
  shows "remaining (pause t clock) = 0
       \<and> isRunning (pause t clock) = False
       \<and> sessionStartTime (pause t clock) = None
       \<and> completedFocusSessions (pause t clock) = completedFocusSessions t
       \<and> currentMode (pause t clock) = currentMode t
       \<and> settings (pause t clock) = settings t
       \<and> fst (tick t clock None) = True
       \<and> completedFocusSessions (snd (tick t clock None)) =
           (if currentMode t = focus then completedFocusSessions t + 1 else completedFocusSessions t)"
proof -
  have fin: "remainingAtStart t - ((case None of None \<Rightarrow> clock | Some n \<Rightarrow> n) - s) div 1000 \<le> 0"
    using assms(3) by simp
  from tick_running_complete(1,5) [OF assms(1,2) fin] assms(3)
  show ?thesis by (simp add: pause_running [OF assms(1,2)])
qed

theorem pause_drain_not_completion_witness:
  "isRunning (start (createPomodoroTimer (testSettings True)) 0)
   \<and> sessionStartTime (start (createPomodoroTimer (testSettings True)) 0) = Some 0
   \<and> remainingAtStart (start (createPomodoroTimer (testSettings True)) 0) \<le> (7000 - 0) div 1000
   \<and> remaining (pause (start (createPomodoroTimer (testSettings True)) 0) 7000) = 0
   \<and> isRunning (pause (start (createPomodoroTimer (testSettings True)) 0) 7000) = False
   \<and> completedFocusSessions (pause (start (createPomodoroTimer (testSettings True)) 0) 7000) = 0
   \<and> currentMode (pause (start (createPomodoroTimer (testSettings True)) 0) 7000) = focus
   \<and> completedFocusSessions (snd (tick (start (createPomodoroTimer (testSettings True)) 0) 7000 None)) = 1"
proof -
  have h1: "isRunning (start (createPomodoroTimer (testSettings True)) 0)"
    by (simp add: start_def createPomodoroTimer_def)
  have h2: "sessionStartTime (start (createPomodoroTimer (testSettings True)) 0) = Some 0"
    by (simp add: start_def createPomodoroTimer_def)
  have h3: "remainingAtStart (start (createPomodoroTimer (testSettings True)) 0) \<le> (7000 - 0) div 1000"
    by (simp add: start_def createPomodoroTimer_def testSettings_def)
  have c: "completedFocusSessions (start (createPomodoroTimer (testSettings True)) 0) = 0"
    and m: "currentMode (start (createPomodoroTimer (testSettings True)) 0) = focus"
    by (simp_all add: start_def createPomodoroTimer_def)
  from pause_drain_not_completion [OF h1 h2 h3] h1 h2 h3 c m
  show ?thesis by simp
qed

section \<open>A tick before the start timestamp\<close>

lemma nonneg_snapshot_candidate_positive:
  assumes "now < s" and "0 \<le> r"
  shows "(now - s) div 1000 < (r::int)"
proof -
  have "(now - s) div 1000 < 0" using assms(1) by simp
  with assms(2) show ?thesis by linarith
qed

text \<open>
  C10 (amended). \<open>tick\<close> accepts a \<open>now\<close> earlier than the start timestamp: for every
  running engine with \<open>now < sessionStartTime\<close> whose candidate
  \<open>remainingAtStart - floor((now - sessionStartTime) / 1000)\<close> is positive (as it is
  whenever \<open>remainingAtStart \<ge> 0\<close>), the floored elapsed time is negative, \<open>tick(now)\<close> sets
  \<open>remaining\<close> to that candidate, which is above \<open>remainingAtStart\<close>, changes nothing else
  and returns the not-completed signal.
\<close>

theorem tick_before_start:
  assumes "isRunning t" and "sessionStartTime t = Some s" and "now < s"
      and "(now - s) div 1000 < remainingAtStart t"
  shows "(now - s) div 1000 < 0
       \<and> tick t clock (Some now) = (False, t\<lparr> remaining := remainingAtStart t - (now - s) div 1000 \<rparr>)
       \<and> remainingAtStart t < remaining (snd (tick t clock (Some now)))"
proof -
  have neg: "(now - s) div 1000 < 0" using assms(3) by simp
  have pos: "0 < remainingAtStart t - ((case Some now of None \<Rightarrow> clock | Some n \<Rightarrow> n) - s) div 1000"
    using assms(4) by simp
  from tick_running_continue [OF assms(1,2) pos] neg show ?thesis by simp
qed

theorem tick_before_start_witness:
  "isRunning (start (createPomodoroTimer (testSettings False)) 5000)
   \<and> sessionStartTime (start (createPomodoroTimer (testSettings False)) 5000) = Some 5000
   \<and> (3000::int) < 5000
   \<and> (3000 - 5000) div 1000 < remainingAtStart (start (createPomodoroTimer (testSettings False)) 5000)
   \<and> fst (tick (start (createPomodoroTimer (testSettings False)) 5000) 5000 (Some 3000)) = False
   \<and> remaining (snd (tick (start (createPomodoroTimer (testSettings False)) 5000) 5000 (Some 3000))) = 7
   \<and> remainingAtStart (start (createPomodoroTimer (testSettings False)) 5000) = 5"
proof -
  have h1: "isRunning (start (createPomodoroTimer (testSettings False)) 5000)"
    by (simp add: start_def createPomodoroTimer_def)
  have h2: "sessionStartTime (start (createPomodoroTimer (testSettings False)) 5000) = Some 5000"
    by (simp add: start_def createPomodoroTimer_def)
  have h3: "(3000::int) < 5000" by simp
  have r: "remainingAtStart (start (createPomodoroTimer (testSettings False)) 5000) = 5"
    by (simp add: start_def createPomodoroTimer_def testSettings_def)
  have h4: "(3000 - 5000) div 1000 < remainingAtStart (start (createPomodoroTimer (testSettings False)) 5000)"
    by (simp add: r)
  from tick_before_start [OF h1 h2 h3 h4, of 5000] h1 h2 h4 r
  show ?thesis by simp
qed

text \<open>
  Without the condition on the candidate the claim fails. resumeFromState stores a
  negative remaining time as \<open>remainingAtStart\<close>; restored as running with -5 seconds
  at time 10000 and ticked at 9000, the engine computes the elapsed time -1 and the
  candidate -4, which is not positive: the tick completes the session, sets \<open>remaining = 0\<close>
  and returns the completed signal.
\<close>

theorem tick_before_start_counterexample:
  "isRunning (resumeFromState (createPomodoroTimer (testSettings False)) (- 5) focus True 0 10000)
   \<and> sessionStartTime (resumeFromState (createPomodoroTimer (testSettings False)) (- 5) focus True 0 10000)
       = Some 10000
   \<and> (9000::int) < 10000
   \<and> remainingAtStart (resumeFromState (createPomodoroTimer (testSettings False)) (- 5) focus True 0 10000)
       - (9000 - 10000) div 1000 = - 4
   \<and> \<not> (remaining (snd (tick (resumeFromState (createPomodoroTimer (testSettings False)) (- 5) focus True 0 10000)
                          10000 (Some 9000))) = - 4
        \<and> fst (tick (resumeFromState (createPomodoroTimer (testSettings False)) (- 5) focus True 0 10000)
                 10000 (Some 9000)) = False)"
  by (simp add: tick_def resumeFromState_def createPomodoroTimer_def testSettings_def Let_def)

lemma early_tick_negative_snapshot_example:
  "fst (tick (resumeFromState (createPomodoroTimer (testSettings False)) (- 5) focus True 0 10000)
          10000 (Some 9000)) = True"
  "state (snd (tick (resumeFromState (createPomodoroTimer (testSettings False)) (- 5) focus True 0 10000)
                 10000 (Some 9000))) = (focus, 0, False, 1)"
  by (simp_all add: state_def tick_def resumeFromState_def createPomodoroTimer_def testSettings_def Let_def)

section \<open>The range of the remaining time\<close>

lemma nonneg_durations_all: "nonneg_durations s \<Longrightarrow> 0 \<le> durations s m"
  by (cases m) (simp_all add: nonneg_durations_def)

lemma engine_inv_running:
  assumes "engine_inv t" and "isRunning t"
  shows "\<exists>s. sessionStartTime t = Some s"
    and "remaining t \<le> remainingAtStart t"
    and "remainingAtStart t \<le> durations (settings t) (currentMode t)"
  using assms by (auto simp: engine_inv_def)

lemma createPomodoroTimer_inv:
  "nonneg_durations s \<Longrightarrow> engine_inv (createPomodoroTimer s)"
  by (simp add: engine_inv_def in_range_def createPomodoroTimer_def nonneg_durations_def)

lemma start_inv: "engine_inv t \<Longrightarrow> engine_inv (start t clock)"
  by (auto simp: engine_inv_def in_range_def start_def)

lemma reset_inv: "engine_inv t \<Longrightarrow> engine_inv (reset t mode_arg)"
  by (simp add: engine_inv_def in_range_def reset_def Let_def nonneg_durations_all)

lemma switchMode_inv: "engine_inv t \<Longrightarrow> engine_inv (switchMode t mode)"
  by (simp add: engine_inv_def in_range_def switchMode_def nonneg_durations_all)

lemma resumeFromState_inv:
  assumes "engine_inv t" and "0 \<le> r" and "r \<le> durations (settings t) m"
  shows "engine_inv (resumeFromState t r m running c clock)"
  using assms by (simp add: engine_inv_def in_range_def resumeFromState_def)

lemma updateSettings_inv:
  assumes "engine_inv t" and "nonneg_durations n"
      and "isRunning t \<Longrightarrow> remainingAtStart t \<le> durations n (currentMode t)"
  shows "engine_inv (updateSettings t n)"
proof (cases "isRunning t")
  case True
  with assms show ?thesis
    by (simp add: engine_inv_def in_range_def updateSettings_def Let_def nonneg_durations_def)
next
  case False
  with assms(1,2) show ?thesis
    by (simp add: engine_inv_def in_range_def updateSettings_def Let_def nonneg_durations_all)
       (simp add: nonneg_durations_def)
qed

lemma pause_inv:
  assumes "engine_inv t" and "\<And>s. sessionStartTime t = Some s \<Longrightarrow> s \<le> clock"
  shows "engine_inv (pause t clock)"
proof (cases "isRunning t")
  case False
  with assms(1) show ?thesis by (simp add: pause_def)
next
  case True
  with assms(1) obtain s where s: "sessionStartTime t = Some s"
    using engine_inv_running(1) by blast
  have el: "0 \<le> (clock - s) div 1000" using assms(2) [OF s] by simp
  have d: "0 \<le> durations (settings t) (currentMode t)"
    using assms(1) by (simp add: engine_inv_def nonneg_durations_all)
  from assms(1) True el d show ?thesis
    by (simp add: pause_running [OF True s] engine_inv_def in_range_def)
qed

lemma tick_inv:
  assumes "engine_inv t"
      and "\<And>s. sessionStartTime t = Some s \<Longrightarrow> s \<le> (case now of None \<Rightarrow> clock | Some n \<Rightarrow> n)"
  shows "engine_inv (snd (tick t clock now))"
proof (cases "isRunning t")
  case False
  with assms(1) show ?thesis by (simp add: tick_not_running)
next
  case True
  with assms(1) obtain s where s: "sessionStartTime t = Some s"
    using engine_inv_running(1) by blast
  let ?el = "((case now of None \<Rightarrow> clock | Some n \<Rightarrow> n) - s) div 1000"
  have el: "0 \<le> ?el" using assms(2) [OF s] by simp
  show ?thesis
  proof (cases "0 < remainingAtStart t - ?el")
    case pos: True
    from assms(1) True el pos show ?thesis
      by (simp add: tick_running_continue [OF True s pos] engine_inv_def in_range_def)
  next
    case False
    then have fin: "remainingAtStart t - ?el \<le> 0" by simp
    have nn: "nonneg_durations (settings t)" using assms(1) by (simp add: engine_inv_def)
    from tick_running_complete(2,4,7) [OF True s fin] nn show ?thesis
      by (simp add: engine_inv_def in_range_def nonneg_durations_all)
  qed
qed

lemma apply_op_inv:
  assumes "engine_inv t" and "admissible t op"
  shows "engine_inv (apply_op t op)"
proof (cases op)
  case (Start clock)
  with assms show ?thesis by (simp add: start_inv)
next
  case (Pause clock)
  with assms show ?thesis by (auto intro: pause_inv)
next
  case (Reset mode_arg)
  with assms show ?thesis by (simp add: reset_inv)
next
  case (SwitchMode mode)
  with assms show ?thesis by (simp add: switchMode_inv)
next
  case (UpdateSettings n)
  with assms show ?thesis by (simp add: updateSettings_inv split: if_splits)
next
  case (Tick clock now)
  with assms show ?thesis by (auto intro: tick_inv)
next
  case (ResumeFromState r m running c clock)
  with assms show ?thesis by (simp add: resumeFromState_inv)
qed

lemma run_inv:
  "engine_inv t \<Longrightarrow> admissible_run t ops \<Longrightarrow> engine_inv (run t ops)"
proof (induction ops arbitrary: t)
  case Nil
  then show ?case by simp
next
  case (Cons op ops)
  from Cons.prems(2) have a: "admissible t op" and b: "admissible_run (apply_op t op) ops"
    by (simp_all split: if_splits)
  from Cons.IH [OF apply_op_inv [OF Cons.prems(1) a] b] show ?case by simp
qed

text \<open>
  C5 (amended). Starting from an initial state created with non-negative durations, after
  every finite sequence of start, pause, reset, switchMode, updateSettings, tick and
  resumeFromState calls in which
  \<^item> resumeFromState is given \<open>0 \<le> remainingSeconds \<le> durations[mode]\<close>,
  \<^item> updateSettings is given non-negative durations and, when the timer is running, a
    duration of the current mode that is not below \<open>remainingAtStart\<close>,
  \<^item> the time used by pause (the clock) and by tick (its \<open>now\<close> argument, or the clock when
    it is omitted) is not earlier than the start timestamp,

  the observable state satisfies \<open>0 \<le> remaining \<le> durations[mode]\<close> for the current
  settings and the current mode. The arguments of start, reset and switchMode are arbitrary.
\<close>

theorem remaining_in_range_admissible:
  assumes "nonneg_durations initialSettings"
      and "admissible_run (createPomodoroTimer initialSettings) ops"
  shows "in_range (run (createPomodoroTimer initialSettings) ops)"
proof -
  have "engine_inv (run (createPomodoroTimer initialSettings) ops)"
    by (rule run_inv [OF createPomodoroTimer_inv [OF assms(1)] assms(2)])
  then show ?thesis by (simp add: engine_inv_def)
qed

theorem remaining_in_range_admissible_witness:
  "nonneg_durations (testSettings True)
   \<and> admissible_run (createPomodoroTimer (testSettings True))
        [Start 1000, Tick 3000 None, Pause 3500,
         UpdateSettings (testSettings True), Start 9000, Tick 9000 (Some 12000),
         SwitchMode long_break, Reset None, ResumeFromState 1 focus True 4 20000, Tick 21000 None]
   \<and> in_range (run (createPomodoroTimer (testSettings True))
        [Start 1000, Tick 3000 None, Pause 3500,
         UpdateSettings (testSettings True), Start 9000, Tick 9000 (Some 12000),
         SwitchMode long_break, Reset None, ResumeFromState 1 focus True 4 20000, Tick 21000 None])"
proof -
  have n: "nonneg_durations (testSettings True)"
    by (simp add: nonneg_durations_def testSettings_def)
  have a: "admissible_run (createPomodoroTimer (testSettings True))
        [Start 1000, Tick 3000 None, Pause 3500,
         UpdateSettings (testSettings True), Start 9000, Tick 9000 (Some 12000),
         SwitchMode long_break, Reset None, ResumeFromState 1 focus True 4 20000, Tick 21000 None]"
    by (simp add: nonneg_durations_def testSettings_def createPomodoroTimer_def start_def tick_def
          pause_def updateSettings_def switchMode_def reset_def resumeFromState_def js_rem_def Let_def)
  from n a remaining_in_range_admissible [OF n a] show ?thesis by simp
qed

text \<open>
  With arbitrary arguments the range is not kept: resumeFromState stores what it is given.
\<close>

theorem remaining_in_range_counterexample:
  "\<not> in_range (run (createPomodoroTimer (testSettings False)) [ResumeFromState (- 1) focus False 0 0])"
  by (simp add: in_range_def resumeFromState_def createPomodoroTimer_def testSettings_def)

text \<open>
  Each of the other conditions is needed as well: a duration lowered below the running
  snapshot, a tick or a pause at a time before the start timestamp, and a negative
  duration each take \<open>remaining\<close> out of the range.
\<close>

lemma range_broken_by_shrinking_running_duration:
  "\<not> in_range (run (createPomodoroTimer (testSettings False))
       [Start 0, UpdateSettings ((testSettings False)\<lparr> durations := (\<lambda>m. 1) \<rparr>)])"
  by (simp add: in_range_def start_def updateSettings_def createPomodoroTimer_def testSettings_def Let_def)

lemma range_broken_by_tick_before_start:
  "\<not> in_range (run (createPomodoroTimer (testSettings False)) [Start 5000, Tick 5000 (Some 0)])"
  by (simp add: in_range_def start_def tick_def createPomodoroTimer_def testSettings_def Let_def)

lemma range_broken_by_pause_before_start:
  "\<not> in_range (run (createPomodoroTimer (testSettings False)) [Start 5000, Pause 0])"
  by (simp add: in_range_def start_def pause_def createPomodoroTimer_def testSettings_def Let_def)

lemma range_broken_by_negative_duration:
  "\<not> in_range (run (createPomodoroTimer ((testSettings False)\<lparr> durations := (\<lambda>m. - 1) \<rparr>)) [])"
  by (simp add: in_range_def createPomodoroTimer_def testSettings_def)

section \<open>Updating the settings\<close>

lemma updateSettings_settings: "settings (updateSettings t newSettings) = newSettings"
  by (simp add: updateSettings_def Let_def)

lemma hook_durations_absent:
  "update_duration partial_durations m = None \<Longrightarrow>
   hook_durations prev partial_durations m = prev m"
  by (auto simp: hook_durations_def update_duration_def split: option.splits)

lemma hook_durations_present:
  "update_duration partial_durations m = Some v \<Longrightarrow>
   hook_durations prev partial_durations m = v"
  by (auto simp: hook_durations_def update_duration_def split: option.splits)

text \<open>
  C6. \<open>updateSettings(partial)\<close> merges the new values into the existing settings with
  the duration map merged key-wise: for every current settings record and every partial
  update, after the call (the hook's merge of the update into the current settings,
  handed to the engine's \<open>updateSettings\<close>) any mode whose duration is not present in the
  update keeps its previous duration, and a mode whose duration is present has the
  duration of the update. The engine's settings are the merged record.
\<close>

theorem updateSettings_keywise_merge:
  "settings (updateSettings t (hook_newSettings others (settings t) partial_durations))
     = hook_newSettings others (settings t) partial_durations
   \<and> (update_duration partial_durations m = None \<longrightarrow>
        durations (settings (updateSettings t (hook_newSettings others (settings t) partial_durations))) m
          = durations (settings t) m)
   \<and> (\<forall>v. update_duration partial_durations m = Some v \<longrightarrow>
        durations (settings (updateSettings t (hook_newSettings others (settings t) partial_durations))) m
          = v)"
  by (simp add: updateSettings_settings hook_newSettings_def hook_durations_absent
        hook_durations_present)

text \<open>
  The update \<open>{ durations: { focus: 10 } }\<close> on the settings of the tests: the short break
  and the long break keep their 2 and 3 seconds, focus lasts 10 seconds.
\<close>

theorem updateSettings_keywise_merge_witness:
  "update_duration focusOnlyDurations short_break = None
   \<and> update_duration focusOnlyDurations focus = Some 10
   \<and> durations (settings (updateSettings (createPomodoroTimer (testSettings False))
        (hook_newSettings (testSettings True) (settings (createPomodoroTimer (testSettings False)))
           focusOnlyDurations))) short_break
       = durations (settings (createPomodoroTimer (testSettings False))) short_break
   \<and> durations (settings (createPomodoroTimer (testSettings False))) short_break = 2
   \<and> durations (settings (updateSettings (createPomodoroTimer (testSettings False))
        (hook_newSettings (testSettings True) (settings (createPomodoroTimer (testSettings False)))
           focusOnlyDurations))) focus
       = 10"
proof -
  have h1: "update_duration focusOnlyDurations short_break = None"
    by (simp add: update_duration_def focusOnlyDurations_def)
  have h2: "update_duration focusOnlyDurations focus = Some 10"
    by (simp add: update_duration_def focusOnlyDurations_def)
  have d: "durations (settings (createPomodoroTimer (testSettings False))) short_break = 2"
    by (simp add: createPomodoroTimer_def testSettings_def)
  have kept: "durations (settings (updateSettings (createPomodoroTimer (testSettings False))
        (hook_newSettings (testSettings True) (settings (createPomodoroTimer (testSettings False)))
           focusOnlyDurations))) short_break
       = durations (settings (createPomodoroTimer (testSettings False))) short_break"
    using updateSettings_keywise_merge
         [of "createPomodoroTimer (testSettings False)" "testSettings True" focusOnlyDurations short_break]
       h1
    by blast
  have taken: "durations (settings (updateSettings (createPomodoroTimer (testSettings False))
        (hook_newSettings (testSettings True) (settings (createPomodoroTimer (testSettings False)))
           focusOnlyDurations))) focus
       = 10"
    using updateSettings_keywise_merge
         [of "createPomodoroTimer (testSettings False)" "testSettings True" focusOnlyDurations focus]
       h2
    by blast
  from h1 h2 kept d taken show ?thesis by (intro conjI)
qed

text \<open>
  An idle engine also restarts the current mode at its merged duration; the engine itself
  takes the duration object of its argument as it is.
\<close>

lemma updateSettings_idle_remaining:
  "\<not> isRunning t \<Longrightarrow>
   remaining (updateSettings t newSettings) = durations newSettings (currentMode t)"
  by (simp add: updateSettings_def Let_def)

lemma updateSettings_durations: "durations (settings (updateSettings t newSettings)) = durations newSettings"
  by (simp add: updateSettings_settings)

end
